theory Spec2Isabelle
  imports Main "HOL-Library.AList"
begin

section \<open>The Singularity device plugin (pkg/server/device/device.go)\<close>

text \<open>
  A shallow embedding of \<^verbatim>\<open>SingularityDevicePlugin\<close>: its constructor, \<^verbatim>\<open>Shutdown\<close>,
  \<^verbatim>\<open>ListAndWatch\<close>, \<^verbatim>\<open>Allocate\<close> and \<^verbatim>\<open>listK8sDevices\<close>.

  Conventions of the embedding.
  \<^item> A Go \<^verbatim>\<open>map[string]T\<close> is an association list with one pair per key. A lookup is
    \<open>map_of\<close>, the assignment \<^verbatim>\<open>m[k] = v\<close> is \<open>AList.update k v\<close>, the key set is
    \<open>fst ` set m\<close>. Go leaves the iteration order of \<^verbatim>\<open>range\<close> over a map unspecified;
    the association list fixes one order, and every statement below about the result of
    such an iteration speaks of its entries, not of their order.
  \<^item> A Go function returning \<^verbatim>\<open>(T, error)\<close> yields a \<open>result\<close>: \<open>Ok v\<close> for
    \<^verbatim>\<open>(v, nil)\<close>, \<open>Err e\<close> for \<^verbatim>\<open>(nil, e)\<close>, \<open>Panic p\<close> when the Go runtime panics.
  \<^item> Collaborators outside the file (NVML, the path search, the gRPC stream, the GPU
    monitor) are inputs: their outcomes are arguments of the functions.
  \<^item> Logging (\<^verbatim>\<open>glog\<close>) has no effect on the state and is left out.
  \<^item> Pointers that the callers never leave nil are values: the devices that \<^verbatim>\<open>getDevices\<close>
    returns, the request of \<^verbatim>\<open>Allocate\<close> and its container requests as gRPC decodes them.
    The nil map is not modelled either: the constructor makes both maps before it returns
    a plugin, and returns no plugin otherwise. The one nil pointer the code can meet, the
    result of \<^verbatim>\<open>dp.devices[devID]\<close> for a missing key, is \<open>None\<close>.
\<close>

subsection \<open>Data\<close>

text \<open>\<^verbatim>\<open>nvml.Device\<close>: the two fields the plugin reads.\<close>

record nvml_Device =
  UUID :: string
  Path :: string

text \<open>The health constants of the device plugin API (\<^verbatim>\<open>k8sDP.Healthy\<close>, \<^verbatim>\<open>k8sDP.Unhealthy\<close>).\<close>

definition Healthy :: string where
  "Healthy = ''Healthy''"

definition Unhealthy :: string where
  "Unhealthy = ''Unhealthy''"

text \<open>A channel of type \<^verbatim>\<open>chan struct{}\<close> on which nothing is ever sent: open or closed.\<close>

datatype chan_state = Open | Closed

record SingularityDevicePlugin =
  devices :: "(string \<times> nvml_Device) list"
  hospital :: "(string \<times> string) list"
  confDir :: string
  done_ch :: chan_state
  unhealthyDev :: "nat option"

text \<open>
  \<open>done_ch\<close> is the field \<^verbatim>\<open>done\<close>. \<open>unhealthyDev\<close> is the handle of the monitor's channel
  (\<open>None\<close> is the nil channel); what is received from it is an input of \<^verbatim>\<open>ListAndWatch\<close>.
\<close>

datatype code = Unknown | Internal

datatype error =
    ErrNoGPUs
  | ErrUnableToLoad
  | Errorf string
  | Status code string
  | External string

text \<open>
  \<open>Errorf\<close> is an error made by \<^verbatim>\<open>fmt.Errorf\<close>, \<open>Status\<close> one made by \<^verbatim>\<open>status.Errorf\<close>
  with its gRPC code, \<open>External\<close> an error of a collaborator that is passed on as it is.
\<close>

datatype panic = NilPointerDereference | CloseOfClosedChannel

datatype 'a result = Ok 'a | Err error | Panic panic

record Mount =
  ContainerPath :: string
  HostPath :: string
  ReadOnly :: bool

record DeviceSpec =
  DevContainerPath :: string
  DevHostPath :: string
  Permissions :: string

record ContainerAllocateRequest =
  DevicesIDs :: "string list"

record AllocateRequest =
  ContainerRequests :: "ContainerAllocateRequest list"

record ContainerAllocateResponse =
  Mounts :: "Mount list"
  Devices :: "DeviceSpec list"

record AllocateResponse =
  ContainerResponses :: "ContainerAllocateResponse list"

record Device =
  ID :: string
  Health :: string

subsection \<open>Allocate\<close>

text \<open>
  The path search of \<^verbatim>\<open>Allocate\<close>: \<^verbatim>\<open>nvidia.Paths(dp.confDir, "")\<close> gives the library and
  binary paths or an error text, \<^verbatim>\<open>nvidia.Devices(false)\<close> the complementary device nodes
  or an error text.
\<close>

record nvidia =
  nvidia_Paths :: "string \<Rightarrow> string \<Rightarrow> string + (string list \<times> string list)"
  nvidia_Devices :: "bool \<Rightarrow> string + string list"

text \<open>The two loops that build \<^verbatim>\<open>nvidiaMounts\<close>.\<close>

definition nvidiaMounts :: "string list \<Rightarrow> string list \<Rightarrow> Mount list" where
  "nvidiaMounts nvLibs nvBins =
     map (\<lambda>libPath. \<lparr>ContainerPath = libPath, HostPath = libPath, ReadOnly = True\<rparr>) nvLibs
     @ map (\<lambda>binPath. \<lparr>ContainerPath = binPath, HostPath = binPath, ReadOnly = True\<rparr>) nvBins"

text \<open>
  The loop over \<^verbatim>\<open>allocateRequest.DevicesIDs\<close>. \<^verbatim>\<open>dp.devices[devID]\<close> is the nil pointer for
  a key that is not in the map, and \<^verbatim>\<open>device.Path\<close> then panics.
\<close>

fun requestedDevices :: "(string \<times> nvml_Device) list \<Rightarrow> string list \<Rightarrow> DeviceSpec list result" where
  "requestedDevices devs [] = Ok []"
| "requestedDevices devs (devID # devIDs) =
     (case map_of devs devID of
        None \<Rightarrow> Panic NilPointerDereference
      | Some device \<Rightarrow>
          (case requestedDevices devs devIDs of
             Ok specs \<Rightarrow>
               Ok (\<lparr>DevContainerPath = Path device, DevHostPath = Path device,
                     Permissions = ''rw''\<rparr> # specs)
           | Err e \<Rightarrow> Err e
           | Panic p \<Rightarrow> Panic p))"

text \<open>The body of the loop over \<^verbatim>\<open>req.ContainerRequests\<close>: one container's response.\<close>

definition allocateContainer ::
  "SingularityDevicePlugin \<Rightarrow> Mount list \<Rightarrow> string list \<Rightarrow> ContainerAllocateRequest
    \<Rightarrow> ContainerAllocateResponse result" where
  "allocateContainer dp mounts nvDevs allocateRequest =
     (case requestedDevices (devices dp) (DevicesIDs allocateRequest) of
        Ok specs \<Rightarrow>
          Ok \<lparr>Mounts = mounts,
              Devices =
                map (\<lambda>nvDev. \<lparr>DevContainerPath = nvDev, DevHostPath = nvDev,
                               Permissions = ''rw''\<rparr>) nvDevs @ specs\<rparr>
      | Err e \<Rightarrow> Err e
      | Panic p \<Rightarrow> Panic p)"

fun allocateResponses ::
  "SingularityDevicePlugin \<Rightarrow> Mount list \<Rightarrow> string list \<Rightarrow> ContainerAllocateRequest list
    \<Rightarrow> ContainerAllocateResponse list result" where
  "allocateResponses dp mounts nvDevs [] = Ok []"
| "allocateResponses dp mounts nvDevs (allocateRequest # reqs) =
     (case allocateContainer dp mounts nvDevs allocateRequest of
        Ok r \<Rightarrow>
          (case allocateResponses dp mounts nvDevs reqs of
             Ok rs \<Rightarrow> Ok (r # rs)
           | Err e \<Rightarrow> Err e
           | Panic p \<Rightarrow> Panic p)
      | Err e \<Rightarrow> Err e
      | Panic p \<Rightarrow> Panic p)"

text \<open>
  \<^verbatim>\<open>Allocate\<close>, with the plugin passed through: the first component of the result is the
  plugin after the call.
\<close>

definition Allocate ::
  "nvidia \<Rightarrow> SingularityDevicePlugin \<Rightarrow> AllocateRequest
    \<Rightarrow> SingularityDevicePlugin \<times> AllocateResponse result" where
  "Allocate nv dp req =
     (case nvidia_Paths nv (confDir dp) [] of
        Inl err \<Rightarrow> (dp, Err (Status Internal (''could not search NVIDIA files: '' @ err)))
      | Inr (nvLibs, nvBins) \<Rightarrow>
          (case nvidia_Devices nv False of
             Inl err \<Rightarrow>
               (dp, Err (Status Internal
                           (''could not search NVIDIA complementary devices: '' @ err)))
           | Inr nvDevs \<Rightarrow>
               (case allocateResponses dp (nvidiaMounts nvLibs nvBins) nvDevs
                       (ContainerRequests req) of
                  Ok rs \<Rightarrow> (dp, Ok \<lparr>ContainerResponses = rs\<rparr>)
                | Err e \<Rightarrow> (dp, Err e)
                | Panic p \<Rightarrow> (dp, Panic p))))"

subsection \<open>Shutdown\<close>

text \<open>
  What the plugin does to the world outside its own fields, in the order it does it:
  \<^verbatim>\<open>nvml.Init()\<close>, \<^verbatim>\<open>monitorGPUs(dp.done, devIDs)\<close>, \<^verbatim>\<open>close(dp.done)\<close>, \<^verbatim>\<open>nvml.Shutdown()\<close>.
\<close>

datatype effect = NvmlInit | MonitorGPUs "string list" | CloseDone | NvmlShutdown

text \<open>
  \<^verbatim>\<open>Shutdown\<close>. The first argument is what \<^verbatim>\<open>nvml.Shutdown()\<close> returns (\<open>None\<close> is nil).
  \<^verbatim>\<open>close\<close> of a closed channel panics, before \<^verbatim>\<open>nvml.Shutdown()\<close> is reached. The result
  is the plugin after the call, the effects of the call in order, and the returned error.
\<close>

definition Shutdown ::
  "string option \<Rightarrow> SingularityDevicePlugin
    \<Rightarrow> SingularityDevicePlugin \<times> effect list \<times> unit result" where
  "Shutdown nvml_Shutdown dp =
     (case done_ch dp of
        Closed \<Rightarrow> (dp, [], Panic CloseOfClosedChannel)
      | Open \<Rightarrow>
          (dp\<lparr>done_ch := Closed\<rparr>, [CloseDone, NvmlShutdown],
           (case nvml_Shutdown of None \<Rightarrow> Ok () | Some err \<Rightarrow> Err (External err))))"

subsection \<open>NewSingularityDevicePlugin\<close>

text \<open>
  The host as the constructor sees it: the outcome of each call it makes. An error is its
  text. \<open>BuildConfig\<close> gives \<^verbatim>\<open>config.SingularityConfdir\<close>; \<open>getDevices\<close> and \<open>monitorGPUs\<close>
  are the package's own helpers, defined in another file.
\<close>

record host =
  RuntimeName :: string
  LookPath :: "string \<Rightarrow> string + string"
  BuildConfig :: "string + string"
  nvml_Init :: "string option"
  nvml_GetDriverVersion :: "string + string"
  nvml_Shutdown :: "string option"
  getDevices :: "string + nvml_Device list"
  monitorGPUs :: "string list \<Rightarrow> string + nat"

text \<open>
  The deferred function, run when the constructor returns \<^verbatim>\<open>(nil, ret)\<close>. It reads the
  local variable \<^verbatim>\<open>err\<close> (here \<open>err\<close>), not the returned error: it calls \<^verbatim>\<open>dp.Shutdown()\<close>
  and drops its result when \<^verbatim>\<open>err\<close> is not nil.
\<close>

definition deferred ::
  "host \<Rightarrow> SingularityDevicePlugin \<Rightarrow> effect list \<Rightarrow> string option \<Rightarrow> error
    \<Rightarrow> effect list \<times> SingularityDevicePlugin result" where
  "deferred h dp effs err ret =
     (case err of
        None \<Rightarrow> (effs, Err ret)
      | Some _ \<Rightarrow>
          (case Shutdown (nvml_Shutdown h) dp of
             (_, effs', Panic p) \<Rightarrow> (effs @ effs', Panic p)
           | (_, effs', _) \<Rightarrow> (effs @ effs', Err ret)))"

text \<open>The body of the loop over \<^verbatim>\<open>devices\<close> (the write to \<^verbatim>\<open>devIDs[i]\<close> is \<open>map UUID\<close> below).\<close>

definition registerDevice :: "nvml_Device \<Rightarrow> SingularityDevicePlugin \<Rightarrow> SingularityDevicePlugin" where
  "registerDevice dev dp =
     dp\<lparr>devices := AList.update (UUID dev) dev (devices dp),
        hospital := AList.update (UUID dev) Healthy (hospital dp)\<rparr>"

definition NewSingularityDevicePlugin ::
  "host \<Rightarrow> effect list \<times> SingularityDevicePlugin result" where
  "NewSingularityDevicePlugin h =
     (case LookPath h (RuntimeName h) of
        Inl err \<Rightarrow>
          ([], Err (Errorf (''could not find '' @ RuntimeName h @ '' on this machine: '' @ err)))
      | Inr _ \<Rightarrow>
     (case BuildConfig h of
        Inl err \<Rightarrow> ([], Err (Errorf (''could not get build config: '' @ err)))
      | Inr config \<Rightarrow>
     (case nvml_Init h of
        Some err \<Rightarrow> ([NvmlInit], Err ErrUnableToLoad)
      | None \<Rightarrow>
     (let dp = \<lparr>devices = [], hospital = [], confDir = config, done_ch = Open,
                unhealthyDev = None\<rparr>
      in
     (case nvml_GetDriverVersion h of
        Inl err \<Rightarrow> deferred h dp [NvmlInit] (Some err) ErrUnableToLoad
      | Inr v \<Rightarrow>
     (case getDevices h of
        Inl err \<Rightarrow>
          deferred h dp [NvmlInit] (Some err)
            (Errorf (''could not get available devices: '' @ err))
      | Inr devs \<Rightarrow>
          if length devs = 0 then deferred h dp [NvmlInit] None ErrNoGPUs
          else
            (let dp = fold registerDevice devs dp;
                 devIDs = map UUID devs
             in
             (case monitorGPUs h devIDs of
                Inl err \<Rightarrow>
                  deferred h dp [NvmlInit, MonitorGPUs devIDs] (Some err)
                    (Errorf (''could not start GPU monitoring: '' @ err))
              | Inr ch \<Rightarrow>
                  ([NvmlInit, MonitorGPUs devIDs], Ok (dp\<lparr>unhealthyDev := Some ch\<rparr>))))))))))"

subsection \<open>listK8sDevices and ListAndWatch\<close>

definition listK8sDevices :: "SingularityDevicePlugin \<Rightarrow> Device list" where
  "listK8sDevices dp = map (\<lambda>(devID, health). \<lparr>ID = devID, Health = health\<rparr>) (hospital dp)"

text \<open>
  What one round of the \<^verbatim>\<open>select\<close> loop meets: \<open>RecvDone\<close> when the receive from
  \<^verbatim>\<open>dp.done\<close> is taken (the channel is closed), \<open>RecvUnhealthyDev devID r\<close> when \<open>devID\<close> is
  received from \<^verbatim>\<open>dp.unhealthyDev\<close> and the \<^verbatim>\<open>srv.Send\<close> that follows returns \<open>r\<close>
  (\<open>None\<close> is nil).
\<close>

datatype event = RecvDone | RecvUnhealthyDev string "string option"

text \<open>
  The handler may stay in its loop for ever. Run against the events met so far, it has
  either returned or is waiting in \<^verbatim>\<open>select\<close>.
\<close>

datatype 'a run = Returned 'a | Waiting

text \<open>
  The \<^verbatim>\<open>for { select { ... } }\<close> loop: the plugin after the events, the snapshots passed
  to \<^verbatim>\<open>srv.Send\<close> in order (the last one is the failed one if a send failed), and the
  outcome.
\<close>

fun watch :: "SingularityDevicePlugin \<Rightarrow> event list
    \<Rightarrow> SingularityDevicePlugin \<times> Device list list \<times> unit result run" where
  "watch dp [] = (dp, [], Waiting)"
| "watch dp (RecvDone # evs) = (dp, [], Returned (Ok ()))"
| "watch dp (RecvUnhealthyDev devID r # evs) =
     (let dp = dp\<lparr>hospital := AList.update devID Unhealthy (hospital dp)\<rparr>;
          devList = listK8sDevices dp
      in
      (case r of
         Some err \<Rightarrow>
           (dp, [devList],
            Returned (Err (Status Unknown (''could not send updated devices state: '' @ err))))
       | None \<Rightarrow>
           (case watch dp evs of (dp', sent, out) \<Rightarrow> (dp', devList # sent, out))))"

text \<open>
  \<^verbatim>\<open>ListAndWatch\<close>. The second argument is what the first \<^verbatim>\<open>srv.Send\<close> returns.
\<close>

definition ListAndWatch :: "SingularityDevicePlugin \<Rightarrow> string option \<Rightarrow> event list
    \<Rightarrow> SingularityDevicePlugin \<times> Device list list \<times> unit result run" where
  "ListAndWatch dp r evs =
     (let devList = listK8sDevices dp
      in
      (case r of
         Some err \<Rightarrow>
           (dp, [devList],
            Returned (Err (Status Unknown (''could not send initial devices state: '' @ err))))
       | None \<Rightarrow>
           (case watch dp evs of (dp', sent, out) \<Rightarrow> (dp', devList # sent, out))))"

text \<open>
  The device ids that the loop takes from \<^verbatim>\<open>dp.unhealthyDev\<close> when it meets the events
  \<open>evs\<close>, in order: it reads no further once it has returned, that is after \<open>RecvDone\<close>
  and after a failed send.
\<close>

fun received :: "event list \<Rightarrow> string list" where
  "received [] = []"
| "received (RecvDone # evs) = []"
| "received (RecvUnhealthyDev devID r # evs) =
     devID # (case r of None \<Rightarrow> received evs | Some err \<Rightarrow> [])"

subsection \<open>A host with two GPUs\<close>

text \<open>The concrete inputs at which the theorems below are evaluated.\<close>

definition gpu0 :: nvml_Device where
  "gpu0 = \<lparr>UUID = ''gpu-0'', Path = ''/dev/nvidia0''\<rparr>"

definition gpu1 :: nvml_Device where
  "gpu1 = \<lparr>UUID = ''gpu-1'', Path = ''/dev/nvidia1''\<rparr>"

definition host0 :: host where
  "host0 = \<lparr>RuntimeName = ''singularity'',
            LookPath = (\<lambda>_. Inr ''/usr/local/bin/singularity''),
            BuildConfig = Inr ''/usr/local/etc/singularity'',
            nvml_Init = None,
            nvml_GetDriverVersion = Inr ''440.33'',
            nvml_Shutdown = None,
            getDevices = Inr [gpu0, gpu1],
            monitorGPUs = (\<lambda>_. Inr 0)\<rparr>"

text \<open>The plugin that the constructor builds on \<open>host0\<close> (lemma \<open>plugin0_constructed\<close>).\<close>

definition plugin0 :: SingularityDevicePlugin where
  "plugin0 = \<lparr>devices = [(''gpu-0'', gpu0), (''gpu-1'', gpu1)],
              hospital = [(''gpu-0'', Healthy), (''gpu-1'', Healthy)],
              confDir = ''/usr/local/etc/singularity'',
              done_ch = Open,
              unhealthyDev = Some 0\<rparr>"

definition nvidia0 :: nvidia where
  "nvidia0 = \<lparr>nvidia_Paths = (\<lambda>_ _. Inr ([''/usr/lib/libcuda.so''], [''/usr/bin/nvidia-smi''])),
              nvidia_Devices = (\<lambda>_. Inr [''/dev/nvidiactl''])\<rparr>"

section \<open>Properties\<close>

lemma plugin0_constructed:
  "NewSingularityDevicePlugin host0 = ([NvmlInit, MonitorGPUs [''gpu-0'', ''gpu-1'']], Ok plugin0)"
  by (simp add: NewSingularityDevicePlugin_def host0_def plugin0_def registerDevice_def
      gpu0_def gpu1_def)

subsection \<open>Allocate\<close>

lemma requestedDevices_known:
  "set devIDs \<subseteq> fst ` set devs \<Longrightarrow>
   requestedDevices devs devIDs =
     Ok (map (\<lambda>devID. \<lparr>DevContainerPath = Path (the (map_of devs devID)),
                        DevHostPath = Path (the (map_of devs devID)),
                        Permissions = ''rw''\<rparr>) devIDs)"
proof (induction devIDs)
  case Nil
  show ?case by simp
next
  case (Cons devID devIDs)
  from Cons.prems have "devID \<in> fst ` set devs" by simp
  then obtain device where "map_of devs devID = Some device"
    by (metis domD dom_map_of_conv_image_fst)
  with Cons show ?case by simp
qed

lemma requestedDevices_unknown:
  "\<not> set devIDs \<subseteq> fst ` set devs \<Longrightarrow>
   requestedDevices devs devIDs = Panic NilPointerDereference"
proof (induction devIDs)
  case Nil
  then show ?case by simp
next
  case (Cons devID devIDs)
  show ?case
  proof (cases "map_of devs devID")
    case None
    then show ?thesis by simp
  next
    case (Some device)
    then have "devID \<in> fst ` set devs"
      by (metis domI dom_map_of_conv_image_fst)
    with Cons.prems have "\<not> set devIDs \<subseteq> fst ` set devs" by simp
    with Cons.IH Some show ?thesis by simp
  qed
qed

lemma allocateResponses_known:
  "\<forall>r \<in> set reqs. set (DevicesIDs r) \<subseteq> fst ` set (devices dp) \<Longrightarrow>
   allocateResponses dp mounts nvDevs reqs =
     Ok (map (\<lambda>r. \<lparr>Mounts = mounts,
                    Devices =
                      map (\<lambda>nvDev. \<lparr>DevContainerPath = nvDev, DevHostPath = nvDev,
                                     Permissions = ''rw''\<rparr>) nvDevs
                      @ map (\<lambda>devID. \<lparr>DevContainerPath = Path (the (map_of (devices dp) devID)),
                                       DevHostPath = Path (the (map_of (devices dp) devID)),
                                       Permissions = ''rw''\<rparr>) (DevicesIDs r)\<rparr>) reqs)"
  by (induction reqs) (simp_all add: allocateContainer_def requestedDevices_known)

lemma allocateResponses_devices_only:
  "devices p = devices q \<Longrightarrow>
   allocateResponses p mounts nvDevs reqs = allocateResponses q mounts nvDevs reqs"
  by (induction reqs) (simp_all add: allocateContainer_def cong: result.case_cong)

lemma Allocate_unchanged: "fst (Allocate nv dp req) = dp"
  by (simp add: Allocate_def split: sum.split result.split prod.split)

text \<open>
  C1. A request with a device id that is not a key of \<^verbatim>\<open>dp.devices\<close> should fail that
  container with an explicit not-found error. The code does not: on the two-GPU plugin, a
  batch of two containers asking for \<open>gpu-0\<close> and for the unknown \<open>gpu-9\<close> makes the
  handler panic on the nil \<^verbatim>\<open>*nvml.Device\<close>, and the first container gets no response
  either.
\<close>

theorem Allocate_unknown_id_panics:
  "Allocate nvidia0 plugin0
     \<lparr>ContainerRequests = [\<lparr>DevicesIDs = [''gpu-0'']\<rparr>, \<lparr>DevicesIDs = [''gpu-9'']\<rparr>]\<rparr>
   = (plugin0, Panic NilPointerDereference)"
  by (simp add: Allocate_def nvidia0_def plugin0_def allocateContainer_def)

text \<open>
  C4. When the path search succeeds and every requested id is a key of \<^verbatim>\<open>dp.devices\<close>,
  \<^verbatim>\<open>Allocate\<close> returns one response per container request, in request order. Each carries
  the same mounts: one read-only mount per library path, then per binary path, container
  path equal to host path. Its device specs are the complementary devices first (\<open>rw\<close>,
  container path equal to host path), then one spec per requested id in request order,
  with the path that \<^verbatim>\<open>dp.devices\<close> records for the id (\<open>rw\<close>).
\<close>

theorem Allocate_known_ids:
  assumes "nvidia_Paths nv (confDir dp) [] = Inr (nvLibs, nvBins)"
    and "nvidia_Devices nv False = Inr nvDevs"
    and "\<forall>r \<in> set (ContainerRequests req). set (DevicesIDs r) \<subseteq> fst ` set (devices dp)"
  shows "Allocate nv dp req =
    (dp, Ok \<lparr>ContainerResponses =
      map (\<lambda>r. \<lparr>Mounts =
                   map (\<lambda>p. \<lparr>ContainerPath = p, HostPath = p, ReadOnly = True\<rparr>) (nvLibs @ nvBins),
                 Devices =
                   map (\<lambda>nvDev. \<lparr>DevContainerPath = nvDev, DevHostPath = nvDev,
                                  Permissions = ''rw''\<rparr>) nvDevs
                   @ map (\<lambda>devID. \<lparr>DevContainerPath = Path (the (map_of (devices dp) devID)),
                                    DevHostPath = Path (the (map_of (devices dp) devID)),
                                    Permissions = ''rw''\<rparr>) (DevicesIDs r)\<rparr>)
          (ContainerRequests req)\<rparr>)"
  using assms by (simp add: Allocate_def allocateResponses_known nvidiaMounts_def)

theorem Allocate_known_ids_witness:
  "nvidia_Paths nvidia0 (confDir plugin0) [] =
     Inr ([''/usr/lib/libcuda.so''], [''/usr/bin/nvidia-smi'']) \<and>
   nvidia_Devices nvidia0 False = Inr [''/dev/nvidiactl''] \<and>
   set (DevicesIDs \<lparr>DevicesIDs = [''gpu-1'', ''gpu-0'']\<rparr>) \<subseteq> fst ` set (devices plugin0) \<and>
   set (DevicesIDs \<lparr>DevicesIDs = []\<rparr>) \<subseteq> fst ` set (devices plugin0) \<and>
   Allocate nvidia0 plugin0
     \<lparr>ContainerRequests = [\<lparr>DevicesIDs = [''gpu-1'', ''gpu-0'']\<rparr>, \<lparr>DevicesIDs = []\<rparr>]\<rparr> =
   (plugin0, Ok \<lparr>ContainerResponses =
      [\<lparr>Mounts = [\<lparr>ContainerPath = ''/usr/lib/libcuda.so'', HostPath = ''/usr/lib/libcuda.so'',
                    ReadOnly = True\<rparr>,
                  \<lparr>ContainerPath = ''/usr/bin/nvidia-smi'', HostPath = ''/usr/bin/nvidia-smi'',
                    ReadOnly = True\<rparr>],
        Devices = [\<lparr>DevContainerPath = ''/dev/nvidiactl'', DevHostPath = ''/dev/nvidiactl'',
                     Permissions = ''rw''\<rparr>,
                   \<lparr>DevContainerPath = ''/dev/nvidia1'', DevHostPath = ''/dev/nvidia1'',
                     Permissions = ''rw''\<rparr>,
                   \<lparr>DevContainerPath = ''/dev/nvidia0'', DevHostPath = ''/dev/nvidia0'',
                     Permissions = ''rw''\<rparr>]\<rparr>,
       \<lparr>Mounts = [\<lparr>ContainerPath = ''/usr/lib/libcuda.so'', HostPath = ''/usr/lib/libcuda.so'',
                    ReadOnly = True\<rparr>,
                  \<lparr>ContainerPath = ''/usr/bin/nvidia-smi'', HostPath = ''/usr/bin/nvidia-smi'',
                    ReadOnly = True\<rparr>],
        Devices = [\<lparr>DevContainerPath = ''/dev/nvidiactl'', DevHostPath = ''/dev/nvidiactl'',
                     Permissions = ''rw''\<rparr>]\<rparr>]\<rparr>)"
proof -
  have paths: "nvidia_Paths nvidia0 (confDir plugin0) [] =
      Inr ([''/usr/lib/libcuda.so''], [''/usr/bin/nvidia-smi''])"
    by (simp add: nvidia0_def)
  have devs: "nvidia_Devices nvidia0 False = Inr [''/dev/nvidiactl'']"
    by (simp add: nvidia0_def)
  have known: "\<forall>r \<in> set (ContainerRequests
        \<lparr>ContainerRequests = [\<lparr>DevicesIDs = [''gpu-1'', ''gpu-0'']\<rparr>, \<lparr>DevicesIDs = []\<rparr>]\<rparr>).
      set (DevicesIDs r) \<subseteq> fst ` set (devices plugin0)"
    by (simp add: plugin0_def)
  show ?thesis
    using paths devs known Allocate_known_ids [OF paths devs known]
    by (simp add: plugin0_def gpu0_def gpu1_def)
qed

text \<open>
  C9. \<^verbatim>\<open>Allocate\<close> leaves the plugin as it found it (device map, health map,
  configuration directory, shutdown channel), whether it returns a response, returns an
  error or panics. Its result is a function of the request, the device map and the path
  search alone: two plugins with the same device map and configuration directory give the
  same result, whatever their health maps and channels are.
\<close>

theorem Allocate_frame:
  "fst (Allocate nv dp req) = dp \<and>
   (devices dp' = devices dp \<and> confDir dp' = confDir dp \<longrightarrow>
      snd (Allocate nv dp' req) = snd (Allocate nv dp req))"
proof -
  have unchanged: "fst (Allocate nv dp req) = dp"
    by (rule Allocate_unchanged)
  have same: "snd (Allocate nv dp' req) = snd (Allocate nv dp req)"
    if "devices dp' = devices dp" "confDir dp' = confDir dp"
    using that allocateResponses_devices_only [OF that(1)]
    by (simp add: Allocate_def split: sum.split result.split prod.split)
  from unchanged same show ?thesis by simp
qed

theorem Allocate_frame_witness:
  "fst (Allocate nvidia0 plugin0 \<lparr>ContainerRequests = [\<lparr>DevicesIDs = [''gpu-0'']\<rparr>]\<rparr>) = plugin0 \<and>
   devices (plugin0\<lparr>hospital := [(''gpu-0'', Unhealthy), (''gpu-1'', Healthy)], done_ch := Closed\<rparr>)
     = devices plugin0 \<and>
   confDir (plugin0\<lparr>hospital := [(''gpu-0'', Unhealthy), (''gpu-1'', Healthy)], done_ch := Closed\<rparr>)
     = confDir plugin0 \<and>
   snd (Allocate nvidia0
          (plugin0\<lparr>hospital := [(''gpu-0'', Unhealthy), (''gpu-1'', Healthy)], done_ch := Closed\<rparr>)
          \<lparr>ContainerRequests = [\<lparr>DevicesIDs = [''gpu-0'']\<rparr>]\<rparr>)
     = snd (Allocate nvidia0 plugin0 \<lparr>ContainerRequests = [\<lparr>DevicesIDs = [''gpu-0'']\<rparr>]\<rparr>)"
  using Allocate_frame [of nvidia0 plugin0 "\<lparr>ContainerRequests = [\<lparr>DevicesIDs = [''gpu-0'']\<rparr>]\<rparr>"
      "plugin0\<lparr>hospital := [(''gpu-0'', Unhealthy), (''gpu-1'', Healthy)], done_ch := Closed\<rparr>"]
  by simp

subsection \<open>NewSingularityDevicePlugin\<close>

lemma deferred_not_Ok: "snd (deferred h dp effs err ret) \<noteq> Ok x"
  by (simp add: deferred_def Shutdown_def split: option.split chan_state.split)

lemma deferred_open:
  "done_ch dp = Open \<Longrightarrow>
   deferred h dp effs err ret =
     (case err of None \<Rightarrow> (effs, Err ret) | Some _ \<Rightarrow> (effs @ [CloseDone, NvmlShutdown], Err ret))"
  by (simp add: deferred_def Shutdown_def split: option.split)

lemma fold_registerDevice_fields:
  "devices (fold registerDevice devs dp) = fold (\<lambda>dev. AList.update (UUID dev) dev) devs (devices dp)"
  "hospital (fold registerDevice devs dp) = fold (\<lambda>dev. AList.update (UUID dev) Healthy) devs (hospital dp)"
  "confDir (fold registerDevice devs dp) = confDir dp"
  "done_ch (fold registerDevice devs dp) = done_ch dp"
  "unhealthyDev (fold registerDevice devs dp) = unhealthyDev dp"
  by (induction devs arbitrary: dp) (simp_all add: registerDevice_def)

lemma keys_fold_update:
  "fst ` set (fold (\<lambda>x. AList.update (f x) (g x)) xs al) = f ` set xs \<union> fst ` set al"
  by (induction xs arbitrary: al) (auto simp: dom_update)

lemma distinct_fold_update:
  "distinct (map fst al) \<Longrightarrow> distinct (map fst (fold (\<lambda>x. AList.update (f x) (g x)) xs al))"
  by (induction xs arbitrary: al) (simp_all add: distinct_update)

lemma map_of_fold_update_const:
  "map_of (fold (\<lambda>x. AList.update (f x) c) xs al) k =
     (if k \<in> f ` set xs then Some c else map_of al k)"
  by (induction xs arbitrary: al) (auto simp: update_conv')

lemma NewSingularityDevicePlugin_Ok:
  assumes "NewSingularityDevicePlugin h = (effs, Ok dp)"
  obtains devs config ch where
    "getDevices h = Inr devs" "devs \<noteq> []"
    "dp = (fold registerDevice devs
             \<lparr>devices = [], hospital = [], confDir = config, done_ch = Open,
              unhealthyDev = None\<rparr>)\<lparr>unhealthyDev := Some ch\<rparr>"
  using assms deferred_not_Ok
  unfolding NewSingularityDevicePlugin_def Let_def
  by (auto split: sum.splits option.splits if_splits) (metis snd_conv)+

text \<open>
  What holds of every plugin the constructor returns: the two maps have the same keys, one
  pair per key, every health value is \<open>Healthy\<close>, and the channel \<^verbatim>\<open>done\<close> is open.
\<close>

lemma constructed_keys:
  assumes "NewSingularityDevicePlugin h = (effs, Ok dp)"
  shows "fst ` set (devices dp) = fst ` set (hospital dp)"
    and "distinct (map fst (hospital dp))"
    and "distinct (map fst (devices dp))"
    and "snd ` set (hospital dp) = {Healthy}"
    and "done_ch dp = Open"
    and "devices dp \<noteq> []"
proof -
  from assms obtain devs config ch where devs: "getDevices h = Inr devs" "devs \<noteq> []"
    and dp: "dp = (fold registerDevice devs
             \<lparr>devices = [], hospital = [], confDir = config, done_ch = Open,
              unhealthyDev = None\<rparr>)\<lparr>unhealthyDev := Some ch\<rparr>"
    by (rule NewSingularityDevicePlugin_Ok)
  show "fst ` set (devices dp) = fst ` set (hospital dp)"
    by (simp add: dp fold_registerDevice_fields keys_fold_update)
  show d: "distinct (map fst (hospital dp))"
    by (simp add: dp fold_registerDevice_fields distinct_fold_update)
  show "distinct (map fst (devices dp))"
    by (simp add: dp fold_registerDevice_fields distinct_fold_update)
  show "done_ch dp = Open"
    by (simp add: dp fold_registerDevice_fields)
  have k: "fst ` set (devices dp) = UUID ` set devs"
    by (simp add: dp fold_registerDevice_fields keys_fold_update)
  with devs(2) show "devices dp \<noteq> []" by auto
  have h: "map_of (hospital dp) k = (if k \<in> UUID ` set devs then Some Healthy else None)" for k
    by (simp add: dp fold_registerDevice_fields map_of_fold_update_const)
  have "v = Healthy" if "(k, v) \<in> set (hospital dp)" for k v
  proof -
    from d that have "map_of (hospital dp) k = Some v" by simp
    with h [of k] show ?thesis by (simp split: if_splits)
  qed
  then have "snd ` set (hospital dp) \<subseteq> {Healthy}" by auto
  moreover have "fst ` set (hospital dp) = UUID ` set devs"
    by (simp add: dp fold_registerDevice_fields keys_fold_update)
  with devs(2) have "hospital dp \<noteq> []" by auto
  ultimately show "snd ` set (hospital dp) = {Healthy}"
    by (cases "hospital dp") auto
qed

text \<open>
  C8. Once the runtime is found and the build configuration is read, the constructor fails
  with \<^verbatim>\<open>ErrUnableToLoad\<close> when \<^verbatim>\<open>nvml.Init\<close> fails or \<^verbatim>\<open>nvml.GetDriverVersion\<close> fails, and
  with \<^verbatim>\<open>ErrNoGPUs\<close> when both succeed and \<^verbatim>\<open>getDevices\<close> returns no device. The two errors
  differ. In both cases no plugin is returned and the monitor is never started.
\<close>

theorem NewSingularityDevicePlugin_errors:
  assumes "LookPath h (RuntimeName h) = Inr path" and "BuildConfig h = Inr config"
  shows "((\<exists>err. nvml_Init h = Some err) \<or>
          (nvml_Init h = None \<and> (\<exists>err. nvml_GetDriverVersion h = Inl err)) \<longrightarrow>
            snd (NewSingularityDevicePlugin h) = Err ErrUnableToLoad \<and>
            (\<forall>dp. snd (NewSingularityDevicePlugin h) \<noteq> Ok dp) \<and>
            (\<forall>devIDs. MonitorGPUs devIDs \<notin> set (fst (NewSingularityDevicePlugin h)))) \<and>
         (nvml_Init h = None \<and> (\<exists>v. nvml_GetDriverVersion h = Inr v) \<and> getDevices h = Inr [] \<longrightarrow>
            snd (NewSingularityDevicePlugin h) = Err ErrNoGPUs \<and>
            (\<forall>dp. snd (NewSingularityDevicePlugin h) \<noteq> Ok dp) \<and>
            (\<forall>devIDs. MonitorGPUs devIDs \<notin> set (fst (NewSingularityDevicePlugin h)))) \<and>
         ErrUnableToLoad \<noteq> ErrNoGPUs"
  using assms
  by (auto simp: NewSingularityDevicePlugin_def deferred_open)

theorem NewSingularityDevicePlugin_errors_witness:
  "LookPath host0 (RuntimeName host0) = Inr ''/usr/local/bin/singularity'' \<and>
   BuildConfig host0 = Inr ''/usr/local/etc/singularity'' \<and>
   NewSingularityDevicePlugin (host0\<lparr>nvml_Init := Some ''library not found''\<rparr>) =
     ([NvmlInit], Err ErrUnableToLoad) \<and>
   NewSingularityDevicePlugin (host0\<lparr>nvml_GetDriverVersion := Inl ''driver not loaded''\<rparr>) =
     ([NvmlInit, CloseDone, NvmlShutdown], Err ErrUnableToLoad) \<and>
   NewSingularityDevicePlugin (host0\<lparr>getDevices := Inr []\<rparr>) = ([NvmlInit], Err ErrNoGPUs)"
  using NewSingularityDevicePlugin_errors
      [where h = "host0\<lparr>nvml_Init := Some ''library not found''\<rparr>"
        and path = "''/usr/local/bin/singularity''" and config = "''/usr/local/etc/singularity''"]
    NewSingularityDevicePlugin_errors
      [where h = "host0\<lparr>nvml_GetDriverVersion := Inl ''driver not loaded''\<rparr>"
        and path = "''/usr/local/bin/singularity''" and config = "''/usr/local/etc/singularity''"]
    NewSingularityDevicePlugin_errors
      [where h = "host0\<lparr>getDevices := Inr []\<rparr>"
        and path = "''/usr/local/bin/singularity''" and config = "''/usr/local/etc/singularity''"]
  by (simp (no_asm) add: host0_def NewSingularityDevicePlugin_def deferred_def Shutdown_def)

subsection \<open>Shutdown\<close>

lemma Shutdown_maps:
  "devices (fst (Shutdown r dp)) = devices dp" "hospital (fst (Shutdown r dp)) = hospital dp"
  by (simp_all add: Shutdown_def split: chan_state.split)

text \<open>
  C3, as the code has it. \<^verbatim>\<open>Shutdown\<close> is to be called once. Called on a plugin whose
  channel \<^verbatim>\<open>done\<close> is open, as it is in every plugin the constructor returns, it closes the
  channel and then calls \<^verbatim>\<open>nvml.Shutdown\<close>, in this order, and returns what
  \<^verbatim>\<open>nvml.Shutdown\<close> returns. It has no guard against a second call: called again, it
  panics on \<^verbatim>\<open>close\<close> and does not reach \<^verbatim>\<open>nvml.Shutdown\<close>.
\<close>

theorem Shutdown_once:
  assumes "done_ch dp = Open"
  shows "Shutdown r dp =
           (dp\<lparr>done_ch := Closed\<rparr>, [CloseDone, NvmlShutdown],
            (case r of None \<Rightarrow> Ok () | Some err \<Rightarrow> Err (External err))) \<and>
         Shutdown r' (fst (Shutdown r dp)) =
           (dp\<lparr>done_ch := Closed\<rparr>, [], Panic CloseOfClosedChannel) \<and>
         (\<forall>h effs dp0. NewSingularityDevicePlugin h = (effs, Ok dp0) \<longrightarrow> done_ch dp0 = Open)"
proof -
  have "\<forall>h effs dp0. NewSingularityDevicePlugin h = (effs, Ok dp0) \<longrightarrow> done_ch dp0 = Open"
    by (intro allI impI) (rule constructed_keys(5))
  with assms show ?thesis by (simp add: Shutdown_def)
qed

theorem Shutdown_once_witness:
  "done_ch plugin0 = Open \<and>
   Shutdown None plugin0 = (plugin0\<lparr>done_ch := Closed\<rparr>, [CloseDone, NvmlShutdown], Ok ()) \<and>
   Shutdown None (fst (Shutdown None plugin0)) =
     (plugin0\<lparr>done_ch := Closed\<rparr>, [], Panic CloseOfClosedChannel)"
proof -
  have open0: "done_ch plugin0 = Open" by (simp add: plugin0_def)
  note once = Shutdown_once [OF open0, where r = None and r' = None, unfolded option.case]
  from once open0 show ?thesis by (intro conjI) (elim conjE, assumption)+
qed

text \<open>The second call of \<^verbatim>\<open>Shutdown\<close> on the two-GPU plugin is not a no-op: it panics.\<close>

theorem Shutdown_twice_counterexample:
  "Shutdown None plugin0 = (plugin0\<lparr>done_ch := Closed\<rparr>, [CloseDone, NvmlShutdown], Ok ()) \<and>
   Shutdown None (plugin0\<lparr>done_ch := Closed\<rparr>) =
     (plugin0\<lparr>done_ch := Closed\<rparr>, [], Panic CloseOfClosedChannel)"
  by (simp add: Shutdown_def plugin0_def)

subsection \<open>listK8sDevices and ListAndWatch\<close>

lemma Healthy_neq_Unhealthy: "Healthy \<noteq> Unhealthy"
  by (simp add: Healthy_def Unhealthy_def)

lemma listK8sDevices_ids: "map ID (listK8sDevices dp) = map fst (hospital dp)"
  by (simp add: listK8sDevices_def case_prod_beta)

lemma listK8sDevices_healths: "map Health (listK8sDevices dp) = map snd (hospital dp)"
  by (simp add: listK8sDevices_def case_prod_beta)

lemma listK8sDevices_mem:
  "d \<in> set (listK8sDevices dp) \<longleftrightarrow> (ID d, Health d) \<in> set (hospital dp)"
  by (cases d) (auto simp: listK8sDevices_def)

lemma listK8sDevices_mem_record:
  "\<lparr>ID = k, Health = v\<rparr> \<in> set (listK8sDevices dp) \<longleftrightarrow> (k, v) \<in> set (hospital dp)"
  by (simp add: listK8sDevices_mem)

text \<open>
  The loop in terms of the ids it receives: the plugin it leaves, and the \<open>k\<close>-th
  snapshot it sends, which is the list of the health map after \<open>k + 1\<close> ids.
\<close>

lemma watch_run:
  "watch dp evs = (dp', sent, out) \<Longrightarrow>
     dp' = dp\<lparr>hospital := fold (\<lambda>devID. AList.update devID Unhealthy) (received evs) (hospital dp)\<rparr>
   \<and> length sent = length (received evs)
   \<and> (\<forall>k < length sent.
        sent ! k =
          listK8sDevices
            (dp\<lparr>hospital := fold (\<lambda>devID. AList.update devID Unhealthy)
                                (take (Suc k) (received evs)) (hospital dp)\<rparr>))"
proof (induction dp evs arbitrary: dp' sent out rule: watch.induct)
  case (1 dp)
  then show ?case by simp
next
  case (2 dp evs)
  then show ?case by simp
next
  case (3 dp devID r evs)
  let ?dp1 = "dp\<lparr>hospital := AList.update devID Unhealthy (hospital dp)\<rparr>"
  show ?case
  proof (cases r)
    case (Some err)
    with "3.prems" show ?thesis by (auto simp: Let_def)
  next
    case None
    obtain dp2 sent2 out2 where w: "watch ?dp1 evs = (dp2, sent2, out2)"
      by (cases "watch ?dp1 evs") auto
    from "3.IH" [OF refl refl None w]
    have ih: "dp2 = ?dp1\<lparr>hospital := fold (\<lambda>devID. AList.update devID Unhealthy) (received evs)
                                  (hospital ?dp1)\<rparr>"
      "length sent2 = length (received evs)"
      "\<And>k. k < length sent2 \<Longrightarrow> sent2 ! k =
          listK8sDevices
            (?dp1\<lparr>hospital := fold (\<lambda>devID. AList.update devID Unhealthy)
                                (take (Suc k) (received evs)) (hospital ?dp1)\<rparr>)"
      by simp_all
    from "3.prems" None w have eq: "dp' = dp2" "sent = listK8sDevices ?dp1 # sent2" "out = out2"
      by (simp_all add: Let_def)
    have "sent ! k =
          listK8sDevices
            (dp\<lparr>hospital := fold (\<lambda>devID. AList.update devID Unhealthy)
                                (take (Suc k) (received (RecvUnhealthyDev devID r # evs)))
                                (hospital dp)\<rparr>)" if "k < length sent" for k
    proof (cases k)
      case 0
      then show ?thesis by (simp add: eq None)
    next
      case (Suc j)
      with that eq have "j < length sent2" by simp
      from ih(3) [OF this] Suc show ?thesis by (simp add: eq None)
    qed
    then show ?thesis using ih(1,2) by (simp add: eq None)
  qed
qed

lemma ListAndWatch_run:
  assumes "ListAndWatch dp r evs = (dp', sent, out)"
  shows "sent \<noteq> []" and "hd sent = listK8sDevices dp"
    and "devices dp' = devices dp" and "confDir dp' = confDir dp" and "done_ch dp' = done_ch dp"
    and "r = None \<Longrightarrow> hospital dp' = fold (\<lambda>devID. AList.update devID Unhealthy) (received evs) (hospital dp)"
    and "r = None \<Longrightarrow> length sent = Suc (length (received evs))"
    and "r \<noteq> None \<Longrightarrow> dp' = dp \<and> sent = [listK8sDevices dp]"
    and "k < length sent \<Longrightarrow> sent ! k =
          listK8sDevices
            (dp\<lparr>hospital := fold (\<lambda>devID. AList.update devID Unhealthy)
                                (take k (received evs)) (hospital dp)\<rparr>)"
proof -
  obtain dp2 sent2 out2 where w: "watch dp evs = (dp2, sent2, out2)"
    by (cases "watch dp evs") auto
  note run = watch_run [OF w]
  from assms w show "sent \<noteq> []" "hd sent = listK8sDevices dp"
    by (auto simp: ListAndWatch_def Let_def split: option.splits)
  from assms w run show "devices dp' = devices dp" "confDir dp' = confDir dp" "done_ch dp' = done_ch dp"
    by (auto simp: ListAndWatch_def Let_def split: option.splits)
  from assms w run show "r = None \<Longrightarrow> hospital dp' = fold (\<lambda>devID. AList.update devID Unhealthy) (received evs) (hospital dp)"
    by (auto simp: ListAndWatch_def Let_def split: option.splits)
  from assms w run show "r = None \<Longrightarrow> length sent = Suc (length (received evs))"
    by (auto simp: ListAndWatch_def Let_def split: option.splits)
  from assms show "r \<noteq> None \<Longrightarrow> dp' = dp \<and> sent = [listK8sDevices dp]"
    by (auto simp: ListAndWatch_def Let_def split: option.splits)
  show "sent ! k =
          listK8sDevices
            (dp\<lparr>hospital := fold (\<lambda>devID. AList.update devID Unhealthy)
                                (take k (received evs)) (hospital dp)\<rparr>)" if "k < length sent"
  proof (cases r)
    case (Some err)
    with assms that show ?thesis by (auto simp: ListAndWatch_def Let_def)
  next
    case None
    with assms w have s: "sent = listK8sDevices dp # sent2" by (simp add: ListAndWatch_def Let_def)
    show ?thesis
    proof (cases k)
      case 0
      then show ?thesis by (simp add: s)
    next
      case (Suc j)
      with that s have "j < length sent2" by simp
      with run Suc show ?thesis by (simp add: s)
    qed
  qed
qed

lemma ListAndWatch_state:
  "fst (ListAndWatch dp None evs) =
     dp\<lparr>hospital := fold (\<lambda>devID. AList.update devID Unhealthy) (received evs) (hospital dp)\<rparr>"
  "fst (ListAndWatch dp (Some err) evs) = dp"
proof -
  obtain dp2 sent2 out2 where w: "watch dp evs = (dp2, sent2, out2)"
    by (cases "watch dp evs") auto
  from watch_run [OF w] w
  show "fst (ListAndWatch dp None evs) =
     dp\<lparr>hospital := fold (\<lambda>devID. AList.update devID Unhealthy) (received evs) (hospital dp)\<rparr>"
    by (simp add: ListAndWatch_def Let_def)
  show "fst (ListAndWatch dp (Some err) evs) = dp"
    by (simp add: ListAndWatch_def Let_def)
qed

lemma ListAndWatch_last:
  assumes "ListAndWatch dp None evs = (dp', sent, out)"
  shows "last sent = listK8sDevices dp'"
proof -
  note run = ListAndWatch_run [OF assms]
  from run(7) have len: "length sent = Suc (length (received evs))" by simp
  then have "length sent - 1 < length sent" by simp
  from run(9) [OF this] len
  have "sent ! (length sent - 1) =
      listK8sDevices (dp\<lparr>hospital := fold (\<lambda>devID. AList.update devID Unhealthy)
                                (received evs) (hospital dp)\<rparr>)"
    by simp
  moreover from assms have "dp' = fst (ListAndWatch dp None evs)" by simp
  ultimately have "sent ! (length sent - 1) = listK8sDevices dp'"
    by (simp add: ListAndWatch_state)
  with run(1) show ?thesis by (simp add: last_conv_nth)
qed

lemma mark_again:
  "map_of (hospital dp) devID = Some Unhealthy \<Longrightarrow>
   ListAndWatch dp None [RecvUnhealthyDev devID None] =
     (dp, [listK8sDevices dp, listK8sDevices dp], Waiting)"
  by (simp add: ListAndWatch_def Let_def update_triv)

lemma received_delivered: "received (map (\<lambda>devID. RecvUnhealthyDev devID None) ids) = ids"
  by (induction ids) simp_all

lemma watch_append_delivered:
  "\<forall>ev \<in> set pre. \<exists>devID. ev = RecvUnhealthyDev devID None \<Longrightarrow>
   received (pre @ evs) = received pre @ received evs"
proof (induction pre)
  case Nil
  show ?case by simp
next
  case (Cons ev pre)
  then obtain devID where "ev = RecvUnhealthyDev devID None" by auto
  with Cons show ?case by simp
qed

text \<open>The outcome of the loop, event by event.\<close>

lemma watch_out_simps:
  "snd (snd (watch dp [])) = Waiting"
  "snd (snd (watch dp (RecvDone # evs))) = Returned (Ok ())"
  "snd (snd (watch dp (RecvUnhealthyDev devID (Some err) # evs))) =
     Returned (Err (Status Unknown (''could not send updated devices state: '' @ err)))"
  "snd (snd (watch dp (RecvUnhealthyDev devID None # evs))) =
     snd (snd (watch (dp\<lparr>hospital := AList.update devID Unhealthy (hospital dp)\<rparr>) evs))"
  by (simp_all add: Let_def split: prod.split)

lemma watch_Waiting:
  "snd (snd (watch dp evs)) = Waiting \<Longrightarrow>
   RecvDone \<notin> set evs \<and> (\<forall>devID err. RecvUnhealthyDev devID (Some err) \<notin> set evs)"
proof (induction evs arbitrary: dp)
  case Nil
  show ?case by simp
next
  case (Cons ev evs)
  show ?case
  proof (cases ev)
    case RecvDone
    with Cons.prems show ?thesis by (simp del: watch.simps add: watch_out_simps)
  next
    case (RecvUnhealthyDev devID r)
    show ?thesis
    proof (cases r)
      case None
      with Cons.prems RecvUnhealthyDev
      have "snd (snd (watch (dp\<lparr>hospital := AList.update devID Unhealthy (hospital dp)\<rparr>) evs)) = Waiting"
        by (simp del: watch.simps add: watch_out_simps)
      from Cons.IH [OF this] RecvUnhealthyDev None show ?thesis by simp
    next
      case (Some err)
      with Cons.prems RecvUnhealthyDev show ?thesis by (simp del: watch.simps add: watch_out_simps)
    qed
  qed
qed

lemma watch_Ok:
  "snd (snd (watch dp evs)) = Returned (Ok u) \<Longrightarrow>
   \<exists>pre post. evs = pre @ RecvDone # post \<and>
      (\<forall>ev \<in> set pre. \<exists>devID. ev = RecvUnhealthyDev devID None)"
proof (induction evs arbitrary: dp)
  case Nil
  then show ?case by (simp del: watch.simps add: watch_out_simps)
next
  case (Cons ev evs)
  show ?case
  proof (cases ev)
    case RecvDone
    show ?thesis
      by (rule exI [of _ "[]"], rule exI [of _ evs]) (simp add: RecvDone)
  next
    case (RecvUnhealthyDev devID r)
    show ?thesis
    proof (cases r)
      case None
      with Cons.prems RecvUnhealthyDev
      have "snd (snd (watch (dp\<lparr>hospital := AList.update devID Unhealthy (hospital dp)\<rparr>) evs)) =
          Returned (Ok u)"
        by (simp del: watch.simps add: watch_out_simps)
      from Cons.IH [OF this] obtain pre post where
        "evs = pre @ RecvDone # post" "\<forall>ev \<in> set pre. \<exists>devID. ev = RecvUnhealthyDev devID None"
        by blast
      then show ?thesis
        by (intro exI [of _ "ev # pre"] exI [of _ post]) (simp add: RecvUnhealthyDev None)
    next
      case (Some err)
      with Cons.prems RecvUnhealthyDev show ?thesis by (simp del: watch.simps add: watch_out_simps)
    qed
  qed
qed

lemma watch_Err:
  "snd (snd (watch dp evs)) = Returned (Err e) \<Longrightarrow>
   \<exists>pre devID err post. evs = pre @ RecvUnhealthyDev devID (Some err) # post \<and>
      (\<forall>ev \<in> set pre. \<exists>devID. ev = RecvUnhealthyDev devID None) \<and>
      e = Status Unknown (''could not send updated devices state: '' @ err)"
proof (induction evs arbitrary: dp)
  case Nil
  then show ?case by (simp del: watch.simps add: watch_out_simps)
next
  case (Cons ev evs)
  show ?case
  proof (cases ev)
    case RecvDone
    with Cons.prems show ?thesis by (simp del: watch.simps add: watch_out_simps)
  next
    case (RecvUnhealthyDev devID r)
    show ?thesis
    proof (cases r)
      case None
      with Cons.prems RecvUnhealthyDev
      have "snd (snd (watch (dp\<lparr>hospital := AList.update devID Unhealthy (hospital dp)\<rparr>) evs)) =
          Returned (Err e)"
        by (simp del: watch.simps add: watch_out_simps)
      from Cons.IH [OF this] obtain pre devID' err post where
        "evs = pre @ RecvUnhealthyDev devID' (Some err) # post"
        "\<forall>ev \<in> set pre. \<exists>devID. ev = RecvUnhealthyDev devID None"
        "e = Status Unknown (''could not send updated devices state: '' @ err)"
        by blast
      then show ?thesis
        by (intro exI [of _ "ev # pre"] exI [of _ devID'] exI [of _ err] exI [of _ post])
          (simp add: RecvUnhealthyDev None)
    next
      case (Some err)
      with Cons.prems RecvUnhealthyDev
      have "e = Status Unknown (''could not send updated devices state: '' @ err)"
        by (simp del: watch.simps add: watch_out_simps)
      then show ?thesis
        by (intro exI [of _ "[]"] exI [of _ devID] exI [of _ err] exI [of _ evs])
          (simp add: RecvUnhealthyDev Some)
    qed
  qed
qed

lemma watch_no_Panic: "snd (snd (watch dp evs)) \<noteq> Returned (Panic p)"
proof (induction evs arbitrary: dp)
  case Nil
  show ?case by (simp del: watch.simps add: watch_out_simps)
next
  case (Cons ev evs)
  show ?case
  proof (cases ev)
    case RecvDone
    then show ?thesis by (simp del: watch.simps add: watch_out_simps)
  next
    case (RecvUnhealthyDev devID r)
    with Cons.IH show ?thesis by (cases r) (simp_all del: watch.simps add: watch_out_simps)
  qed
qed

lemma watch_fails_after_delivered:
  "\<forall>ev \<in> set pre. \<exists>devID'. ev = RecvUnhealthyDev devID' None \<Longrightarrow>
   snd (snd (watch dp (pre @ RecvUnhealthyDev devID (Some err) # post))) =
     Returned (Err (Status Unknown (''could not send updated devices state: '' @ err)))"
proof (induction pre arbitrary: dp)
  case Nil
  show ?case by (simp del: watch.simps add: watch_out_simps)
next
  case (Cons ev pre)
  then obtain devID' where "ev = RecvUnhealthyDev devID' None" by auto
  with Cons show ?case by (simp del: watch.simps add: watch_out_simps)
qed

lemma ListAndWatch_out:
  "snd (snd (ListAndWatch dp None evs)) = snd (snd (watch dp evs))"
  "snd (snd (ListAndWatch dp (Some err) evs)) =
     Returned (Err (Status Unknown (''could not send initial devices state: '' @ err)))"
  by (simp_all add: ListAndWatch_def Let_def split: prod.split)

text \<open>The health map after a list of ids has been marked.\<close>

lemma keys_mark:
  "fst ` set (fold (\<lambda>devID. AList.update devID v) ids al) = set ids \<union> fst ` set al"
  using keys_fold_update [of "\<lambda>devID. devID" "\<lambda>_. v" ids al] by simp

lemma distinct_mark:
  "distinct (map fst al) \<Longrightarrow> distinct (map fst (fold (\<lambda>devID. AList.update devID v) ids al))"
  by (rule distinct_fold_update)

lemma map_of_mark:
  "map_of (fold (\<lambda>devID. AList.update devID v) ids al) k =
     (if k \<in> set ids then Some v else map_of al k)"
  using map_of_fold_update_const [of "\<lambda>devID. devID" v ids al k] by simp

lemma snapshot_after_marks:
  assumes "distinct (map fst (hospital dp))"
  shows "d \<in> set (listK8sDevices
            (dp\<lparr>hospital := fold (\<lambda>devID. AList.update devID Unhealthy) ids (hospital dp)\<rparr>))
     \<longleftrightarrow> (if ID d \<in> set ids then Health d = Unhealthy
          else map_of (hospital dp) (ID d) = Some (Health d))"
proof -
  let ?al = "fold (\<lambda>devID. AList.update devID Unhealthy) ids (hospital dp)"
  have "distinct (map fst ?al)" using assms by (rule distinct_mark)
  then have "(ID d, Health d) \<in> set ?al \<longleftrightarrow> map_of ?al (ID d) = Some (Health d)"
    by simp
  then show ?thesis by (simp add: listK8sDevices_mem map_of_mark eq_commute)
qed

text \<open>
  C6, as the code has it. \<^verbatim>\<open>ListAndWatch\<close> leaves in two ways only, and never panics. It
  returns nil exactly when the first event that is not a delivered notification is the
  receive from the closed channel \<^verbatim>\<open>done\<close>. It returns an error exactly when a send fails,
  the first one or the one after a notification, and the error is then a gRPC status
  whose code is \<^verbatim>\<open>codes.Unknown\<close> (the code is not \<^verbatim>\<open>codes.Internal\<close>). As long as neither
  has happened it waits in \<^verbatim>\<open>select\<close>.
\<close>

theorem ListAndWatch_exits:
  "case snd (snd (ListAndWatch dp r evs)) of
     Waiting \<Rightarrow>
       r = None \<and> RecvDone \<notin> set evs \<and>
       (\<forall>devID err. RecvUnhealthyDev devID (Some err) \<notin> set evs)
   | Returned (Ok u) \<Rightarrow>
       r = None \<and>
       (\<exists>pre post. evs = pre @ RecvDone # post \<and>
          (\<forall>ev \<in> set pre. \<exists>devID. ev = RecvUnhealthyDev devID None))
   | Returned (Err e) \<Rightarrow>
       (\<exists>err. r = Some err \<and>
          e = Status Unknown (''could not send initial devices state: '' @ err)) \<or>
       (r = None \<and>
        (\<exists>pre devID err post. evs = pre @ RecvUnhealthyDev devID (Some err) # post \<and>
          (\<forall>ev \<in> set pre. \<exists>devID. ev = RecvUnhealthyDev devID None) \<and>
          e = Status Unknown (''could not send updated devices state: '' @ err)))
   | Returned (Panic p) \<Rightarrow> False"
proof (cases r)
  case (Some err)
  then show ?thesis by (simp add: ListAndWatch_out)
next
  case None
  show ?thesis
  proof (cases "snd (snd (watch dp evs))")
    case Waiting
    with watch_Waiting [OF Waiting] None show ?thesis
      by (simp only: ListAndWatch_out run.case) simp
  next
    case (Returned res)
    show ?thesis
    proof (cases res)
      case (Ok u)
      with watch_Ok [of dp evs u] Returned None show ?thesis
        by (simp only: ListAndWatch_out run.case result.case)
    next
      case (Err e)
      with watch_Err [of dp evs e] Returned None show ?thesis
        by (simp only: ListAndWatch_out run.case result.case) simp
    next
      case (Panic p)
      with watch_no_Panic [of dp evs p] Returned show ?thesis by simp
    qed
  qed
qed

theorem ListAndWatch_exits_witness:
  "snd (snd (ListAndWatch plugin0 None [RecvUnhealthyDev ''gpu-1'' None, RecvDone])) =
     Returned (Ok ()) \<and>
   snd (snd (ListAndWatch plugin0 None [RecvUnhealthyDev ''gpu-1'' (Some ''EOF''), RecvDone])) =
     Returned (Err (Status Unknown ''could not send updated devices state: EOF'')) \<and>
   snd (snd (ListAndWatch plugin0 (Some ''EOF'') [RecvDone])) =
     Returned (Err (Status Unknown ''could not send initial devices state: EOF'')) \<and>
   snd (snd (ListAndWatch plugin0 None [RecvUnhealthyDev ''gpu-1'' None])) = Waiting"
  using ListAndWatch_exits [where dp = plugin0 and r = None
        and evs = "[RecvUnhealthyDev ''gpu-1'' None, RecvDone]"]
    ListAndWatch_exits [where dp = plugin0 and r = None
        and evs = "[RecvUnhealthyDev ''gpu-1'' (Some ''EOF''), RecvDone]"]
    ListAndWatch_exits [where dp = plugin0 and r = "Some ''EOF''" and evs = "[RecvDone]"]
    ListAndWatch_exits [where dp = plugin0 and r = None and evs = "[RecvUnhealthyDev ''gpu-1'' None]"]
  by (simp (no_asm) add: ListAndWatch_def Let_def)

text \<open>A failed send gives the code \<^verbatim>\<open>Unknown\<close>, not \<^verbatim>\<open>Internal\<close>.\<close>

theorem ListAndWatch_exits_counterexample:
  "snd (snd (ListAndWatch plugin0 None [RecvUnhealthyDev ''gpu-1'' (Some ''EOF'')])) =
     Returned (Err (Status Unknown ''could not send updated devices state: EOF'')) \<and>
   snd (snd (ListAndWatch plugin0 None [RecvUnhealthyDev ''gpu-1'' (Some ''EOF'')])) \<noteq>
     Returned (Err (Status Internal ''could not send updated devices state: EOF'')) \<and>
   snd (snd (ListAndWatch plugin0 (Some ''EOF'') [])) =
     Returned (Err (Status Unknown ''could not send initial devices state: EOF'')) \<and>
   snd (snd (ListAndWatch plugin0 (Some ''EOF'') [])) \<noteq>
     Returned (Err (Status Internal ''could not send initial devices state: EOF''))"
  by (simp add: ListAndWatch_def Let_def)

text \<open>
  C5. Every message \<^verbatim>\<open>ListAndWatch\<close> sends is a full snapshot. The first is the list of the
  health map as the stream finds it; the \<open>k\<close>-th after it is the list after the first \<open>k\<close>
  received ids. Each holds every key of the device map, every id once, and with every id
  its health at that moment: \<open>Unhealthy\<close> if the id is among the ids received so far,
  otherwise what the health map held when the stream was opened. For a plugin as the
  constructor returns it, the first message holds exactly the keys of the device map, all
  \<open>Healthy\<close>.
\<close>

theorem ListAndWatch_snapshots:
  assumes "ListAndWatch dp r evs = (dp', sent, out)"
    and "distinct (map fst (hospital dp))"
    and "fst ` set (devices dp) \<subseteq> fst ` set (hospital dp)"
  shows "sent \<noteq> [] \<and> hd sent = listK8sDevices dp \<and>
    (\<forall>k < length sent.
       fst ` set (devices dp) \<subseteq> ID ` set (sent ! k) \<and>
       ID ` set (sent ! k) = fst ` set (hospital dp) \<union> set (take k (received evs)) \<and>
       distinct (map ID (sent ! k)) \<and>
       (\<forall>d \<in> set (sent ! k).
          if ID d \<in> set (take k (received evs)) then Health d = Unhealthy
          else map_of (hospital dp) (ID d) = Some (Health d))) \<and>
    (\<forall>h effs. NewSingularityDevicePlugin h = (effs, Ok dp) \<longrightarrow>
       ID ` set (hd sent) = fst ` set (devices dp) \<and> (\<forall>d \<in> set (hd sent). Health d = Healthy))"
proof -
  note run = ListAndWatch_run [OF assms(1)]
  have snap: "fst ` set (devices dp) \<subseteq> ID ` set (sent ! k) \<and>
       ID ` set (sent ! k) = fst ` set (hospital dp) \<union> set (take k (received evs)) \<and>
       distinct (map ID (sent ! k)) \<and>
       (\<forall>d \<in> set (sent ! k).
          if ID d \<in> set (take k (received evs)) then Health d = Unhealthy
          else map_of (hospital dp) (ID d) = Some (Health d))" if "k < length sent" for k
  proof -
    let ?q = "dp\<lparr>hospital := fold (\<lambda>devID. AList.update devID Unhealthy)
                                (take k (received evs)) (hospital dp)\<rparr>"
    from run(9) [OF that] have s: "sent ! k = listK8sDevices ?q" .
    have ids: "map ID (sent ! k) = map fst (hospital ?q)"
      by (simp only: s listK8sDevices_ids)
    have "ID ` set (sent ! k) = set (map ID (sent ! k))" by simp
    also have "\<dots> = fst ` set (hospital ?q)" by (simp only: ids) simp
    also have "\<dots> = fst ` set (hospital dp) \<union> set (take k (received evs))"
      by (simp add: keys_mark Un_commute)
    finally have keys: "ID ` set (sent ! k) = fst ` set (hospital dp) \<union> set (take k (received evs))" .
    have dist: "distinct (map ID (sent ! k))"
      using assms(2) by (simp only: ids) (simp add: distinct_mark)
    have health: "\<forall>d \<in> set (sent ! k).
          if ID d \<in> set (take k (received evs)) then Health d = Unhealthy
          else map_of (hospital dp) (ID d) = Some (Health d)"
    proof
      fix d
      assume "d \<in> set (sent ! k)"
      then have "d \<in> set (listK8sDevices ?q)" by (simp only: s)
      then show "if ID d \<in> set (take k (received evs)) then Health d = Unhealthy
          else map_of (hospital dp) (ID d) = Some (Health d)"
        by (simp only: snapshot_after_marks [OF assms(2)])
    qed
    have "fst ` set (devices dp) \<subseteq> fst ` set (hospital dp) \<union> set (take k (received evs))"
      using assms(3) by (rule le_supI1)
    then have cover: "fst ` set (devices dp) \<subseteq> ID ` set (sent ! k)"
      by (simp only: keys)
    from cover keys dist health show ?thesis by (intro conjI)
  qed
  have fresh: "ID ` set (hd sent) = fst ` set (devices dp) \<and> (\<forall>d \<in> set (hd sent). Health d = Healthy)"
    if "NewSingularityDevicePlugin h = (effs, Ok dp)" for h effs
  proof -
    note c = constructed_keys [OF that]
    have "ID ` set (hd sent) = set (map ID (listK8sDevices dp))" by (simp add: run(2))
    also have "\<dots> = fst ` set (devices dp)" by (simp only: listK8sDevices_ids) (simp add: c(1))
    finally have a: "ID ` set (hd sent) = fst ` set (devices dp)" .
    have "Health d = Healthy" if "d \<in> set (hd sent)" for d
    proof -
      from that have "(ID d, Health d) \<in> set (hospital dp)"
        by (simp add: run(2) listK8sDevices_mem)
      then have "Health d \<in> snd ` set (hospital dp)" by force
      with c(4) show ?thesis by simp
    qed
    with a show ?thesis by blast
  qed
  have snap_all: "\<forall>k < length sent.
       fst ` set (devices dp) \<subseteq> ID ` set (sent ! k) \<and>
       ID ` set (sent ! k) = fst ` set (hospital dp) \<union> set (take k (received evs)) \<and>
       distinct (map ID (sent ! k)) \<and>
       (\<forall>d \<in> set (sent ! k).
          if ID d \<in> set (take k (received evs)) then Health d = Unhealthy
          else map_of (hospital dp) (ID d) = Some (Health d))"
    by (intro allI impI) (rule snap)
  have fresh_all: "\<forall>h effs. NewSingularityDevicePlugin h = (effs, Ok dp) \<longrightarrow>
       ID ` set (hd sent) = fst ` set (devices dp) \<and> (\<forall>d \<in> set (hd sent). Health d = Healthy)"
    by (intro allI impI) (rule fresh)
  from run(1) run(2) snap_all fresh_all show ?thesis by (intro conjI)
qed

text \<open>Two notifications for \<open>gpu-1\<close> on the two-GPU plugin, both delivered.\<close>

lemma plugin0_notified_twice:
  "ListAndWatch plugin0 None [RecvUnhealthyDev ''gpu-1'' None, RecvUnhealthyDev ''gpu-1'' None] =
     (plugin0\<lparr>hospital := [(''gpu-0'', Healthy), (''gpu-1'', Unhealthy)]\<rparr>,
      [[\<lparr>ID = ''gpu-0'', Health = Healthy\<rparr>, \<lparr>ID = ''gpu-1'', Health = Healthy\<rparr>],
       [\<lparr>ID = ''gpu-0'', Health = Healthy\<rparr>, \<lparr>ID = ''gpu-1'', Health = Unhealthy\<rparr>],
       [\<lparr>ID = ''gpu-0'', Health = Healthy\<rparr>, \<lparr>ID = ''gpu-1'', Health = Unhealthy\<rparr>]],
      Waiting)"
  by (simp add: ListAndWatch_def Let_def listK8sDevices_def plugin0_def)

theorem ListAndWatch_snapshots_witness:
  "ListAndWatch plugin0 None [RecvUnhealthyDev ''gpu-1'' None, RecvUnhealthyDev ''gpu-1'' None] =
     (plugin0\<lparr>hospital := [(''gpu-0'', Healthy), (''gpu-1'', Unhealthy)]\<rparr>,
      [[\<lparr>ID = ''gpu-0'', Health = Healthy\<rparr>, \<lparr>ID = ''gpu-1'', Health = Healthy\<rparr>],
       [\<lparr>ID = ''gpu-0'', Health = Healthy\<rparr>, \<lparr>ID = ''gpu-1'', Health = Unhealthy\<rparr>],
       [\<lparr>ID = ''gpu-0'', Health = Healthy\<rparr>, \<lparr>ID = ''gpu-1'', Health = Unhealthy\<rparr>]],
      Waiting) \<and>
   distinct (map fst (hospital plugin0)) \<and>
   fst ` set (devices plugin0) \<subseteq> fst ` set (hospital plugin0) \<and>
   NewSingularityDevicePlugin host0 = ([NvmlInit, MonitorGPUs [''gpu-0'', ''gpu-1'']], Ok plugin0) \<and>
   hd [[\<lparr>ID = ''gpu-0'', Health = Healthy\<rparr>, \<lparr>ID = ''gpu-1'', Health = Healthy\<rparr>],
       [\<lparr>ID = ''gpu-0'', Health = Healthy\<rparr>, \<lparr>ID = ''gpu-1'', Health = Unhealthy\<rparr>],
       [\<lparr>ID = ''gpu-0'', Health = Healthy\<rparr>, \<lparr>ID = ''gpu-1'', Health = Unhealthy\<rparr>]] =
     listK8sDevices plugin0 \<and>
   ID ` set (hd [[\<lparr>ID = ''gpu-0'', Health = Healthy\<rparr>, \<lparr>ID = ''gpu-1'', Health = Healthy\<rparr>],
       [\<lparr>ID = ''gpu-0'', Health = Healthy\<rparr>, \<lparr>ID = ''gpu-1'', Health = Unhealthy\<rparr>],
       [\<lparr>ID = ''gpu-0'', Health = Healthy\<rparr>, \<lparr>ID = ''gpu-1'', Health = Unhealthy\<rparr>]]) =
     fst ` set (devices plugin0)"
proof -
  have d: "distinct (map fst (hospital plugin0))" by (simp add: plugin0_def)
  have s: "fst ` set (devices plugin0) \<subseteq> fst ` set (hospital plugin0)" by (simp add: plugin0_def)
  note snap = ListAndWatch_snapshots [OF plugin0_notified_twice d s]
  note first = snap [THEN conjunct2, THEN conjunct1]
  note fresh = snap [THEN conjunct2, THEN conjunct2, THEN conjunct2, THEN spec, THEN spec, THEN mp,
      OF plugin0_constructed, THEN conjunct1]
  from plugin0_notified_twice d s plugin0_constructed first fresh show ?thesis by (intro conjI)
qed

text \<open>
  C2, as the code has it. The device map and the health map of a plugin that the
  constructor returns have the same keys. \<^verbatim>\<open>Allocate\<close> and \<^verbatim>\<open>Shutdown\<close> keep the two key
  sets equal, and so does \<^verbatim>\<open>ListAndWatch\<close> as long as every id it receives is a key of the
  device map. A notification with an id that is not a key does not panic and leaves the
  device map as it is.
\<close>

theorem registry_keys:
  assumes "NewSingularityDevicePlugin h = (effs, Ok dp0)"
    and "fst ` set (devices dp) = fst ` set (hospital dp)"
  shows "fst ` set (devices dp0) = fst ` set (hospital dp0) \<and>
    (let dp' = fst (Allocate nv dp req)
     in fst ` set (devices dp') = fst ` set (hospital dp')) \<and>
    (let dp' = fst (Shutdown r dp)
     in fst ` set (devices dp') = fst ` set (hospital dp')) \<and>
    (set (received evs) \<subseteq> fst ` set (devices dp) \<longrightarrow>
       (let dp' = fst (ListAndWatch dp r' evs)
        in fst ` set (devices dp') = fst ` set (hospital dp'))) \<and>
    (devID \<notin> fst ` set (devices dp) \<longrightarrow>
       (case ListAndWatch dp None [RecvUnhealthyDev devID r''] of
          (dp', sent, out) \<Rightarrow>
            devices dp' = devices dp \<and> (\<forall>p. out \<noteq> Returned (Panic p))))"
proof -
  have init: "fst ` set (devices dp0) = fst ` set (hospital dp0)"
    using assms(1) by (rule constructed_keys(1))
  have alloc: "let dp' = fst (Allocate nv dp req)
     in fst ` set (devices dp') = fst ` set (hospital dp')"
    using assms(2) by (simp add: Allocate_unchanged)
  have shut: "let dp' = fst (Shutdown r dp)
     in fst ` set (devices dp') = fst ` set (hospital dp')"
    using assms(2) by (simp add: Shutdown_maps)
  have law: "let dp' = fst (ListAndWatch dp r' evs)
        in fst ` set (devices dp') = fst ` set (hospital dp')"
    if "set (received evs) \<subseteq> fst ` set (devices dp)"
  proof (cases r')
    case None
    with that assms(2) show ?thesis
      by (simp add: ListAndWatch_state keys_mark Un_absorb1)
  next
    case (Some err)
    with assms(2) show ?thesis by (simp add: ListAndWatch_state)
  qed
  have unknown: "case ListAndWatch dp None [RecvUnhealthyDev devID r''] of
          (dp', sent, out) \<Rightarrow>
            devices dp' = devices dp \<and> (\<forall>p. out \<noteq> Returned (Panic p))"
    by (cases r'') (simp_all add: ListAndWatch_def Let_def)
  from init alloc shut law unknown show ?thesis by (intro conjI impI)
qed

theorem registry_keys_witness:
  "NewSingularityDevicePlugin host0 = ([NvmlInit, MonitorGPUs [''gpu-0'', ''gpu-1'']], Ok plugin0) \<and>
   fst ` set (devices plugin0) = fst ` set (hospital plugin0) \<and>
   set (received [RecvUnhealthyDev ''gpu-1'' None, RecvDone]) \<subseteq> fst ` set (devices plugin0) \<and>
   fst ` set (devices (fst (ListAndWatch plugin0 None [RecvUnhealthyDev ''gpu-1'' None, RecvDone]))) =
   fst ` set (hospital (fst (ListAndWatch plugin0 None [RecvUnhealthyDev ''gpu-1'' None, RecvDone]))) \<and>
   ''gpu-9'' \<notin> fst ` set (devices plugin0) \<and>
   devices (fst (ListAndWatch plugin0 None [RecvUnhealthyDev ''gpu-9'' None])) = devices plugin0"
proof -
  have inv: "fst ` set (devices plugin0) = fst ` set (hospital plugin0)"
    by (simp add: plugin0_def)
  have known: "set (received [RecvUnhealthyDev ''gpu-1'' None, RecvDone]) \<subseteq> fst ` set (devices plugin0)"
    by (simp add: plugin0_def)
  have unknown: "''gpu-9'' \<notin> fst ` set (devices plugin0)"
    by (simp add: plugin0_def)
  from registry_keys [OF plugin0_constructed inv, where nv = nvidia0
      and req = "\<lparr>ContainerRequests = []\<rparr>" and r = None
      and evs = "[RecvUnhealthyDev ''gpu-1'' None, RecvDone]" and r' = None
      and devID = "''gpu-9''" and r'' = None]
    plugin0_constructed inv known unknown
  show ?thesis by (simp add: Let_def split: prod.splits)
qed

text \<open>
  On the two-GPU plugin a notification for the unknown \<open>gpu-9\<close> is not ignored: it changes
  the health map, which gets the key \<open>gpu-9\<close> that the device map does not have.
\<close>

theorem registry_keys_counterexample:
  "NewSingularityDevicePlugin host0 = ([NvmlInit, MonitorGPUs [''gpu-0'', ''gpu-1'']], Ok plugin0) \<and>
   ''gpu-9'' \<notin> fst ` set (devices plugin0) \<and>
   hospital (fst (ListAndWatch plugin0 None [RecvUnhealthyDev ''gpu-9'' None])) =
     [(''gpu-0'', Healthy), (''gpu-1'', Healthy), (''gpu-9'', Unhealthy)] \<and>
   hospital (fst (ListAndWatch plugin0 None [RecvUnhealthyDev ''gpu-9'' None])) \<noteq> hospital plugin0 \<and>
   ''gpu-9'' \<in> fst ` set (hospital (fst (ListAndWatch plugin0 None [RecvUnhealthyDev ''gpu-9'' None]))) \<and>
   ''gpu-9'' \<notin> fst ` set (devices (fst (ListAndWatch plugin0 None [RecvUnhealthyDev ''gpu-9'' None])))"
proof -
  have run: "fst (ListAndWatch plugin0 None [RecvUnhealthyDev ''gpu-9'' None]) =
      plugin0\<lparr>hospital := [(''gpu-0'', Healthy), (''gpu-1'', Healthy), (''gpu-9'', Unhealthy)]\<rparr>"
    by (simp add: ListAndWatch_def Let_def plugin0_def)
  show ?thesis
    unfolding run using plugin0_constructed by (simp add: plugin0_def)
qed

text \<open>
  C7. On a plugin as the constructor returns it, after any sequence of delivered
  notifications whose ids are keys of the device map, the last snapshot sent is the list
  of the health map, its unhealthy ids are exactly the notified ids, and its healthy ids
  are the other keys. A further notification for one of the notified ids leaves the plugin
  as it is, health map included, and the snapshot sent for it is the same again.
\<close>

theorem unhealthy_set:
  assumes "NewSingularityDevicePlugin h = (effs, Ok dp)"
    and "set ids \<subseteq> fst ` set (devices dp)"
  shows "case ListAndWatch dp None (map (\<lambda>devID. RecvUnhealthyDev devID None) ids) of
     (dp', sent, out) \<Rightarrow>
       last sent = listK8sDevices dp' \<and>
       {ID d | d. d \<in> set (listK8sDevices dp') \<and> Health d = Unhealthy} = set ids \<and>
       {ID d | d. d \<in> set (listK8sDevices dp') \<and> Health d = Healthy} =
         fst ` set (devices dp) - set ids \<and>
       (\<forall>devID \<in> set ids.
          ListAndWatch dp' None [RecvUnhealthyDev devID None] =
            (dp', [listK8sDevices dp', listK8sDevices dp'], Waiting))"
proof -
  let ?evs = "map (\<lambda>devID. RecvUnhealthyDev devID None) ids"
  let ?marked = "fold (\<lambda>devID. AList.update devID Unhealthy) ids (hospital dp)"
  obtain dp' sent out where law: "ListAndWatch dp None ?evs = (dp', sent, out)"
    by (cases "ListAndWatch dp None ?evs") auto
  note c = constructed_keys [OF assms(1)]
  from law have "dp' = fst (ListAndWatch dp None ?evs)" by simp
  then have dp': "dp' = dp\<lparr>hospital := ?marked\<rparr>"
    by (simp add: ListAndWatch_state received_delivered)
  have healthy: "v = Healthy" if "map_of (hospital dp) k = Some v" for k v
  proof -
    from that have "(k, v) \<in> set (hospital dp)" by (rule map_of_SomeD)
    then have "v \<in> snd ` set (hospital dp)" by force
    with c(4) show ?thesis by simp
  qed
  have mem: "d \<in> set (listK8sDevices dp') \<longleftrightarrow>
      (if ID d \<in> set ids then Health d = Unhealthy
       else map_of (hospital dp) (ID d) = Some (Health d))" for d
    unfolding dp' by (rule snapshot_after_marks [OF c(2)])
  have last: "last sent = listK8sDevices dp'"
    using law by (rule ListAndWatch_last)
  have unhealthy: "{ID d | d. d \<in> set (listK8sDevices dp') \<and> Health d = Unhealthy} = set ids"
  proof (intro equalityI subsetI)
    fix k
    assume "k \<in> {ID d | d. d \<in> set (listK8sDevices dp') \<and> Health d = Unhealthy}"
    then obtain d where d: "k = ID d" "d \<in> set (listK8sDevices dp')" "Health d = Unhealthy"
      by blast
    show "k \<in> set ids"
    proof (rule ccontr)
      assume "k \<notin> set ids"
      with d mem [of d] have "map_of (hospital dp) (ID d) = Some Unhealthy" by simp
      from healthy [OF this] Healthy_neq_Unhealthy show False by simp
    qed
  next
    fix k
    assume "k \<in> set ids"
    then have "\<lparr>ID = k, Health = Unhealthy\<rparr> \<in> set (listK8sDevices dp')"
      by (simp add: mem)
    then have "\<exists>d. k = ID d \<and> d \<in> set (listK8sDevices dp') \<and> Health d = Unhealthy"
      by (intro exI [of _ "\<lparr>ID = k, Health = Unhealthy\<rparr>"]) simp
    then show "k \<in> {ID d | d. d \<in> set (listK8sDevices dp') \<and> Health d = Unhealthy}"
      by simp
  qed
  have healthy_set: "{ID d | d. d \<in> set (listK8sDevices dp') \<and> Health d = Healthy} =
         fst ` set (devices dp) - set ids"
  proof (intro equalityI subsetI)
    fix k
    assume "k \<in> {ID d | d. d \<in> set (listK8sDevices dp') \<and> Health d = Healthy}"
    then obtain d where d: "k = ID d" "d \<in> set (listK8sDevices dp')" "Health d = Healthy"
      by blast
    from d mem [of d] Healthy_neq_Unhealthy
    have "ID d \<notin> set ids \<and> map_of (hospital dp) (ID d) = Some (Health d)"
      by (auto split: if_splits)
    then have "ID d \<notin> set ids" "(ID d, Health d) \<in> set (hospital dp)"
      by (simp_all add: map_of_SomeD)
    then have "ID d \<notin> set ids" "ID d \<in> fst ` set (hospital dp)" by force+
    with d(1) c(1) show "k \<in> fst ` set (devices dp) - set ids" by simp
  next
    fix k
    assume k: "k \<in> fst ` set (devices dp) - set ids"
    with c(1) have "k \<in> fst ` set (hospital dp)" by simp
    then obtain v where v: "(k, v) \<in> set (hospital dp)" by force
    with c(2) have m: "map_of (hospital dp) k = Some v" by simp
    from healthy [OF m] m k have "\<lparr>ID = k, Health = Healthy\<rparr> \<in> set (listK8sDevices dp')"
      by (simp add: mem)
    then have "\<exists>d. k = ID d \<and> d \<in> set (listK8sDevices dp') \<and> Health d = Healthy"
      by (intro exI [of _ "\<lparr>ID = k, Health = Healthy\<rparr>"]) simp
    then show "k \<in> {ID d | d. d \<in> set (listK8sDevices dp') \<and> Health d = Healthy}"
      by simp
  qed
  have again: "\<forall>devID \<in> set ids.
          ListAndWatch dp' None [RecvUnhealthyDev devID None] =
            (dp', [listK8sDevices dp', listK8sDevices dp'], Waiting)"
  proof
    fix devID
    assume "devID \<in> set ids"
    then have "map_of (hospital dp') devID = Some Unhealthy"
      by (simp add: dp' map_of_mark)
    then show "ListAndWatch dp' None [RecvUnhealthyDev devID None] =
            (dp', [listK8sDevices dp', listK8sDevices dp'], Waiting)"
      by (rule mark_again)
  qed
  from last unhealthy healthy_set again show ?thesis
    by (simp only: law prod.case)
qed

theorem unhealthy_set_witness:
  "NewSingularityDevicePlugin host0 = ([NvmlInit, MonitorGPUs [''gpu-0'', ''gpu-1'']], Ok plugin0) \<and>
   set [''gpu-1'', ''gpu-1''] \<subseteq> fst ` set (devices plugin0) \<and>
   {ID d | d. d \<in> set (listK8sDevices (plugin0\<lparr>hospital := [(''gpu-0'', Healthy), (''gpu-1'', Unhealthy)]\<rparr>))
       \<and> Health d = Unhealthy} = {''gpu-1''} \<and>
   ListAndWatch (plugin0\<lparr>hospital := [(''gpu-0'', Healthy), (''gpu-1'', Unhealthy)]\<rparr>) None
       [RecvUnhealthyDev ''gpu-1'' None] =
     (plugin0\<lparr>hospital := [(''gpu-0'', Healthy), (''gpu-1'', Unhealthy)]\<rparr>,
      [listK8sDevices (plugin0\<lparr>hospital := [(''gpu-0'', Healthy), (''gpu-1'', Unhealthy)]\<rparr>),
       listK8sDevices (plugin0\<lparr>hospital := [(''gpu-0'', Healthy), (''gpu-1'', Unhealthy)]\<rparr>)],
      Waiting)"
proof -
  have known: "set [''gpu-1'', ''gpu-1''] \<subseteq> fst ` set (devices plugin0)"
    by (simp add: plugin0_def)
  have evs: "map (\<lambda>devID. RecvUnhealthyDev devID None) [''gpu-1'', ''gpu-1''] =
      [RecvUnhealthyDev ''gpu-1'' None, RecvUnhealthyDev ''gpu-1'' None]" by simp
  from unhealthy_set [OF plugin0_constructed known] plugin0_constructed known
  show ?thesis by (simp only: evs plugin0_notified_twice prod.case) simp
qed

text \<open>
  C10. When the send that follows a notification fails, \<^verbatim>\<open>ListAndWatch\<close> returns the error
  and the mark stays: the health map of the plugin it leaves has the notified id as
  \<open>Unhealthy\<close>, and the first snapshot of every later stream reports the id, and reports it
  as \<open>Unhealthy\<close> only.
\<close>

theorem failed_send_keeps_mark:
  assumes "\<forall>ev \<in> set pre. \<exists>devID'. ev = RecvUnhealthyDev devID' None"
    and "distinct (map fst (hospital dp))"
  shows "case ListAndWatch dp None (pre @ RecvUnhealthyDev devID (Some err) # post) of
     (dp', sent, out) \<Rightarrow>
       out = Returned (Err (Status Unknown (''could not send updated devices state: '' @ err))) \<and>
       map_of (hospital dp') devID = Some Unhealthy \<and>
       (\<forall>r evs. case ListAndWatch dp' r evs of
          (dp'', sent', out') \<Rightarrow>
            \<lparr>ID = devID, Health = Unhealthy\<rparr> \<in> set (hd sent') \<and>
            (\<forall>d \<in> set (hd sent'). ID d = devID \<longrightarrow> Health d = Unhealthy))"
proof -
  let ?evs = "pre @ RecvUnhealthyDev devID (Some err) # post"
  obtain dp' sent out where law: "ListAndWatch dp None ?evs = (dp', sent, out)"
    by (cases "ListAndWatch dp None ?evs") auto
  have rec: "received ?evs = received pre @ [devID]"
    using assms(1) by (simp add: watch_append_delivered)
  from law have "dp' = fst (ListAndWatch dp None ?evs)" by simp
  then have dp': "dp' = dp\<lparr>hospital := fold (\<lambda>devID. AList.update devID Unhealthy)
      (received pre @ [devID]) (hospital dp)\<rparr>"
    by (simp only: ListAndWatch_state rec)
  have look: "map_of (hospital dp') devID = Some Unhealthy"
    by (simp add: dp' update_conv')
  have dist: "distinct (map fst (hospital dp'))"
    using assms(2) by (simp add: dp' distinct_mark distinct_update del: fold_append)
  have out: "out = Returned (Err (Status Unknown (''could not send updated devices state: '' @ err)))"
  proof -
    from law have o: "out = snd (snd (ListAndWatch dp None ?evs))" by simp
    from assms(1) show ?thesis
      by (simp only: o ListAndWatch_out watch_fails_after_delivered)
  qed
  have later: "\<forall>r evs. case ListAndWatch dp' r evs of
          (dp'', sent', out') \<Rightarrow>
            \<lparr>ID = devID, Health = Unhealthy\<rparr> \<in> set (hd sent') \<and>
            (\<forall>d \<in> set (hd sent'). ID d = devID \<longrightarrow> Health d = Unhealthy)"
  proof (intro allI)
    fix r evs
    obtain dp'' sent' out' where law': "ListAndWatch dp' r evs = (dp'', sent', out')"
      by (cases "ListAndWatch dp' r evs") auto
    from ListAndWatch_run(2) [OF law'] have first: "hd sent' = listK8sDevices dp'" .
    from look have "(devID, Unhealthy) \<in> set (hospital dp')" by (rule map_of_SomeD)
    then have a: "\<lparr>ID = devID, Health = Unhealthy\<rparr> \<in> set (hd sent')"
      by (simp only: first listK8sDevices_mem_record)
    have b: "\<forall>d \<in> set (hd sent'). ID d = devID \<longrightarrow> Health d = Unhealthy"
    proof (intro ballI impI)
      fix d
      assume "d \<in> set (hd sent')" "ID d = devID"
      then have "(devID, Health d) \<in> set (hospital dp')"
        by (simp add: first listK8sDevices_mem)
      with dist have "map_of (hospital dp') devID = Some (Health d)" by simp
      with look show "Health d = Unhealthy" by simp
    qed
    from a b show "case ListAndWatch dp' r evs of
          (dp'', sent', out') \<Rightarrow>
            \<lparr>ID = devID, Health = Unhealthy\<rparr> \<in> set (hd sent') \<and>
            (\<forall>d \<in> set (hd sent'). ID d = devID \<longrightarrow> Health d = Unhealthy)"
      by (simp only: law' prod.case)
  qed
  from out look later show ?thesis
    by (simp only: law prod.case) simp
qed

theorem failed_send_keeps_mark_witness:
  "distinct (map fst (hospital plugin0)) \<and>
   ListAndWatch plugin0 None [RecvUnhealthyDev ''gpu-0'' None, RecvUnhealthyDev ''gpu-1'' (Some ''EOF'')] =
     (plugin0\<lparr>hospital := [(''gpu-0'', Unhealthy), (''gpu-1'', Unhealthy)]\<rparr>,
      [[\<lparr>ID = ''gpu-0'', Health = Healthy\<rparr>, \<lparr>ID = ''gpu-1'', Health = Healthy\<rparr>],
       [\<lparr>ID = ''gpu-0'', Health = Unhealthy\<rparr>, \<lparr>ID = ''gpu-1'', Health = Healthy\<rparr>],
       [\<lparr>ID = ''gpu-0'', Health = Unhealthy\<rparr>, \<lparr>ID = ''gpu-1'', Health = Unhealthy\<rparr>]],
      Returned (Err (Status Unknown ''could not send updated devices state: EOF''))) \<and>
   \<lparr>ID = ''gpu-1'', Health = Unhealthy\<rparr> \<in>
     set (hd (fst (snd (ListAndWatch
       (plugin0\<lparr>hospital := [(''gpu-0'', Unhealthy), (''gpu-1'', Unhealthy)]\<rparr>) None []))))"
proof -
  have d: "distinct (map fst (hospital plugin0))" by (simp add: plugin0_def)
  have pre: "\<forall>ev \<in> set [RecvUnhealthyDev ''gpu-0'' None]. \<exists>devID'. ev = RecvUnhealthyDev devID' None"
    by simp
  have run: "ListAndWatch plugin0 None
      ([RecvUnhealthyDev ''gpu-0'' None] @ RecvUnhealthyDev ''gpu-1'' (Some ''EOF'') # []) =
     (plugin0\<lparr>hospital := [(''gpu-0'', Unhealthy), (''gpu-1'', Unhealthy)]\<rparr>,
      [[\<lparr>ID = ''gpu-0'', Health = Healthy\<rparr>, \<lparr>ID = ''gpu-1'', Health = Healthy\<rparr>],
       [\<lparr>ID = ''gpu-0'', Health = Unhealthy\<rparr>, \<lparr>ID = ''gpu-1'', Health = Healthy\<rparr>],
       [\<lparr>ID = ''gpu-0'', Health = Unhealthy\<rparr>, \<lparr>ID = ''gpu-1'', Health = Unhealthy\<rparr>]],
      Returned (Err (Status Unknown ''could not send updated devices state: EOF'')))"
    by (simp add: ListAndWatch_def Let_def listK8sDevices_def plugin0_def)
  from failed_send_keeps_mark [OF pre d, where devID = "''gpu-1''" and err = "''EOF''" and post = "[]"]
  have "\<forall>r evs. case ListAndWatch (plugin0\<lparr>hospital := [(''gpu-0'', Unhealthy), (''gpu-1'', Unhealthy)]\<rparr>) r evs of
          (dp'', sent', out') \<Rightarrow>
            \<lparr>ID = ''gpu-1'', Health = Unhealthy\<rparr> \<in> set (hd sent') \<and>
            (\<forall>d \<in> set (hd sent'). ID d = ''gpu-1'' \<longrightarrow> Health d = Unhealthy)"
    by (simp only: run prod.case) simp
  then have "case ListAndWatch (plugin0\<lparr>hospital := [(''gpu-0'', Unhealthy), (''gpu-1'', Unhealthy)]\<rparr>) None [] of
          (dp'', sent', out') \<Rightarrow>
            \<lparr>ID = ''gpu-1'', Health = Unhealthy\<rparr> \<in> set (hd sent') \<and>
            (\<forall>d \<in> set (hd sent'). ID d = ''gpu-1'' \<longrightarrow> Health d = Unhealthy)"
    by (elim allE)
  then have "\<lparr>ID = ''gpu-1'', Health = Unhealthy\<rparr> \<in>
     set (hd (fst (snd (ListAndWatch
       (plugin0\<lparr>hospital := [(''gpu-0'', Unhealthy), (''gpu-1'', Unhealthy)]\<rparr>) None []))))"
    by (simp split: prod.splits)
  with d run show ?thesis by simp
qed

end
